theory Spec2Isabelle
  imports Main "HOL-Library.Sublist"
begin

section \<open>ftserver.c: the embedding\<close>

text \<open>
  The server is sequential C code whose observable behaviour is the sequence of
  \<^verbatim>\<open>write\<close> calls it issues on the data socket. The embedding keeps the functions of
  \<^verbatim>\<open>ftserver.c\<close> under their own names and makes the environment explicit:

  \<^item> a byte is a \<^typ>\<open>char\<close>, a buffer is a \<^typ>\<open>string\<close> holding all its bytes;
  \<^item> a \<^verbatim>\<open>const char *\<close> argument that is a literal or a directory entry name is given
    by its characters before the terminating NUL; a raw buffer is read as a C string
    through \<open>cstr\<close>;
  \<^item> the socket records every \<^verbatim>\<open>write\<close> call (the bytes requested and the value
    returned); the transport decides the returned values through a script;
  \<^item> the file system is a record: what \<^verbatim>\<open>opendir(".")\<close>/\<^verbatim>\<open>readdir\<close> enumerate, what
    \<^verbatim>\<open>fopen(name, "r")\<close> yields, and the layout of the directory records that the in-place
    \<^verbatim>\<open>strcat\<close> of \<^verbatim>\<open>sendDir\<close> writes into;
  \<^item> \<^verbatim>\<open>error(msg)\<close> (\<^verbatim>\<open>perror\<close> then \<^verbatim>\<open>exit(1)\<close>) is the status \<open>Exited msg\<close>; an access
    outside an object or through a NULL handle is the status \<open>Fault\<close>;
  \<^item> the \<^verbatim>\<open>while(!feof(file))\<close> loop may run forever, so it takes fuel: the status
    \<open>Running\<close> says that the loop was still running when the fuel ran out.

  Console output (\<^verbatim>\<open>printf\<close>) is not modelled and \<^verbatim>\<open>malloc\<close> is taken to succeed.
\<close>

subsection \<open>Bytes, buffers and C strings\<close>

abbreviation NUL :: char where
  "NUL \<equiv> CHR 0x00"

definition BUFFER_SIZE :: nat where
  "BUFFER_SIZE = 500"

text \<open>The C string stored in a buffer: the bytes before the first NUL.\<close>

definition cstr :: "string \<Rightarrow> string" where
  "cstr b = takeWhile (\<lambda>c. c \<noteq> NUL) b"

text \<open>
  \<^verbatim>\<open>strcmp\<close> and \<^verbatim>\<open>strncmp\<close> on C strings. The program only tests the result against 0,
  so every non-zero result is represented by 1.
\<close>

definition strcmp :: "string \<Rightarrow> string \<Rightarrow> int" where
  "strcmp a b = (if a = b then 0 else 1)"

definition strncmp :: "string \<Rightarrow> string \<Rightarrow> nat \<Rightarrow> int" where
  "strncmp a b n = (if take n a = take n b then 0 else 1)"

text \<open>\<^verbatim>\<open>bzero(buffer, n)\<close>: the first \<open>n\<close> bytes of the buffer afterwards.\<close>

definition bzero :: "nat \<Rightarrow> string" where
  "bzero n = replicate n NUL"

text \<open>
  \<^verbatim>\<open>strcpy(dest, src)\<close> writes the characters of \<open>src\<close> and the terminating NUL at the
  start of \<open>dest\<close>; \<open>None\<close> when they do not fit into \<open>dest\<close>.
\<close>

definition strcpy :: "string \<Rightarrow> string \<Rightarrow> string option" where
  "strcpy dest src =
     (let m = src @ [NUL]
      in if length m \<le> length dest then Some (m @ drop (length m) dest) else None)"

subsection \<open>Outcomes\<close>

datatype status = Returned | Exited string | Fault | Running

subsection \<open>The data socket\<close>

record sock =
  calls :: "(string \<times> int) list"
  script :: "int list"
  closed :: bool

text \<open>
  \<^verbatim>\<open>write(fd, buffer, count)\<close>. The next value of the script is what the transport
  answers: a negative value is an error, any other value is the number of bytes it
  accepts, at most \<open>count\<close>. With no script left the transport accepts everything.
\<close>

definition answer :: "int list \<Rightarrow> nat \<Rightarrow> int" where
  "answer scr count =
     (case scr of
        [] \<Rightarrow> int count
      | x # _ \<Rightarrow> if x < 0 then x else min x (int count))"

definition write_sock :: "sock \<Rightarrow> string \<Rightarrow> nat \<Rightarrow> int \<times> sock" where
  "write_sock socketFD buffer count =
     (let req = take count buffer;
          r = answer (script socketFD) (length req)
      in (r, socketFD\<lparr>calls := calls socketFD @ [(req, r)],
                       script := drop 1 (script socketFD)\<rparr>))"

definition close_sock :: "sock \<Rightarrow> sock" where
  "close_sock socketFD = socketFD\<lparr>closed := True\<rparr>"

text \<open>
  \<open>closed\<close> records the \<^verbatim>\<open>close(dataSockFD)\<close> of \<^verbatim>\<open>main\<close>. What was handed to the
  transport, and what it took, call by call:
\<close>

definition requests :: "sock \<Rightarrow> string list" where
  "requests s = map fst (calls s)"

definition accepted :: "string \<times> int \<Rightarrow> string" where
  "accepted c = take (nat (snd c)) (fst c)"

definition wire :: "sock \<Rightarrow> string" where
  "wire s = concat (map accepted (calls s))"

text \<open>
  \<^verbatim>\<open>read(fd, buffer, count)\<close>: \<open>None\<close> is a negative result, \<open>Some bs\<close> the bytes that
  the transport delivers to this call.
\<close>

definition read_sock :: "string option \<Rightarrow> string \<Rightarrow> nat \<Rightarrow> int \<times> string" where
  "read_sock incoming buffer count =
     (case incoming of
        None \<Rightarrow> (- 1, buffer)
      | Some bs \<Rightarrow>
          (let got = take count bs
           in (int (length got), got @ drop (length got) buffer)))"

subsection \<open>The file system\<close>

text \<open>
  An open stream: the bytes that can still be read, whether the read after them fails
  (\<open>bad\<close>) or meets the end of the file, and the two indicators of the stream.
\<close>

record FILE =
  data :: string
  bad :: bool
  eof :: bool
  err :: bool

text \<open>
  \<open>opendir\<close> is what \<^verbatim>\<open>opendir(".")\<close> and the \<^verbatim>\<open>readdir\<close> calls enumerate when nothing
  writes into the records (\<open>None\<close>: the directory cannot be opened); \<open>fopen\<close> is
  \<^verbatim>\<open>fopen(name, "r")\<close>. The program calls \<^verbatim>\<open>closedir(d)\<close> also when \<open>d\<close> is NULL;
  \<open>closedir_null_returns\<close> says whether the C library returns from that call (glibc
  answers EINVAL) or faults.

  \<^verbatim>\<open>readdir\<close> returns a pointer into the buffer of the directory stream, where the records
  lie one after the other. For the record of the entry named \<open>n\<close>, \<open>d_room e n\<close> is the
  number of bytes between the terminating NUL of its name and the next record of the
  buffer (for the last record of a buffer: the free space behind it), and \<open>d_ino e n\<close>
  is its inode number, the first field of the record, stored low byte first.

  \<open>beyond\<close> holds the bytes that follow the command buffer in memory, up to the next NUL:
  reading a buffer without a NUL as a C string runs on into them.
\<close>

record env =
  opendir :: "string list option"
  fopen :: "string \<Rightarrow> FILE option"
  closedir_null_returns :: bool
  d_room :: "string \<Rightarrow> nat"
  d_ino :: "string \<Rightarrow> nat"
  beyond :: string

text \<open>
  \<^verbatim>\<open>strcat(dir->d_name, src)\<close> on the record that \<^verbatim>\<open>readdir\<close> has returned: the string in
  \<open>d_name\<close> afterwards, and whether the copy runs over the end of the record. The program
  appends one byte, so what runs over is the terminating NUL: it lands on the first byte
  of the next record, the low byte of its \<open>d_ino\<close>.
\<close>

definition strcat :: "env \<Rightarrow> string \<Rightarrow> string \<Rightarrow> string \<times> bool" where
  "strcat e d_name src = (d_name @ src, d_room e d_name < length src)"

definition closedir :: "env \<Rightarrow> string list option \<Rightarrow> status" where
  "closedir e d =
     (case d of
        None \<Rightarrow> if closedir_null_returns e then Returned else Fault
      | Some _ \<Rightarrow> Returned)"

definition feof :: "FILE \<Rightarrow> bool" where
  "feof file = eof file"

text \<open>
  \<^verbatim>\<open>fread(buffer, size, nmemb, file)\<close> for items of one byte: the bytes stored in the buffer
  (their number is the value returned) and the stream afterwards. A short count sets the
  end-of-file or the error indicator.
\<close>

definition sizeof_char :: nat where
  "sizeof_char = 1"

definition fread :: "nat \<Rightarrow> nat \<Rightarrow> FILE \<Rightarrow> string \<times> FILE" where
  "fread sz nmemb file =
     (let want = sz * nmemb
      in if want \<le> length (data file)
         then (take want (data file), file\<lparr>data := drop want (data file)\<rparr>)
         else (data file, file\<lparr>data := [],
                                  eof := (if bad file then eof file else True),
                                  err := (if bad file then True else err file)\<rparr>))"

subsection \<open>sendMsg and recMsg\<close>

definition sendMsg :: "sock \<Rightarrow> string \<Rightarrow> status \<times> sock" where
  "sendMsg socketFD msg =
     (case strcpy (bzero BUFFER_SIZE) msg of
        None \<Rightarrow> (Fault, socketFD)
      | Some buffer \<Rightarrow>
          (let (success, s') = write_sock socketFD buffer BUFFER_SIZE
           in if success < 0 then (Exited ''ERROR writing message to socket.'', s')
              else (Returned, s')))"

definition recMsg :: "string option \<Rightarrow> status \<times> string" where
  "recMsg incoming =
     (let (n, buffer) = read_sock incoming (bzero BUFFER_SIZE) BUFFER_SIZE
      in if n < 0 then (Exited ''ERROR reading from socket'', buffer)
         else (Returned, buffer))"

subsection \<open>sendDir and inDir\<close>

text \<open>
  The loop over \<^verbatim>\<open>readdir\<close>. \<open>hit\<close> says that the \<^verbatim>\<open>strcat\<close> of the previous iteration
  has cleared the low byte of the \<open>d_ino\<close> of the record at the head of the list.
  \<^verbatim>\<open>readdir\<close> skips a record whose \<open>d_ino\<close> is 0, which a record that was hit is when its
  inode number is below 256.
\<close>

fun sendDir_loop :: "env \<Rightarrow> bool \<Rightarrow> string list \<Rightarrow> sock \<Rightarrow> status \<times> sock" where
  "sendDir_loop e hit [] socketFD = (Returned, socketFD)"
| "sendDir_loop e hit (d_name # rest) socketFD =
     (if hit \<and> d_ino e d_name < 256 then sendDir_loop e False rest socketFD
      else
        (let (line, over) = strcat e d_name ''\<newline>'';
             r = sendMsg socketFD line
         in if fst r = Returned then sendDir_loop e over rest (snd r) else r))"

definition sendDir :: "env \<Rightarrow> sock \<Rightarrow> status \<times> sock" where
  "sendDir e socketFD =
     (let d = opendir e;
          r = (case d of
                 None \<Rightarrow> (Returned, socketFD)
               | Some entries \<Rightarrow>
                   (let r1 = sendDir_loop e False entries socketFD
                    in if fst r1 = Returned then sendMsg (snd r1) ''~done\<newline>''
                       else r1))
      in if fst r = Returned then (closedir e d, snd r) else r)"

fun inDir_loop :: "string \<Rightarrow> string list \<Rightarrow> int \<Rightarrow> int" where
  "inDir_loop fileName [] found = found"
| "inDir_loop fileName (d_name # rest) found =
     inDir_loop fileName rest (if strcmp fileName d_name = 0 then 1 else found)"

definition inDir :: "env \<Rightarrow> string \<Rightarrow> status \<times> int" where
  "inDir e fileName =
     (let d = opendir e;
          found = (case d of
                     None \<Rightarrow> 0
                   | Some entries \<Rightarrow> inDir_loop fileName entries 0)
      in (closedir e d, found))"

subsection \<open>sendFile\<close>

text \<open>
  One unit of fuel per iteration of \<^verbatim>\<open>while(!feof(file))\<close>. The chunk written is the
  part of the buffer that \<^verbatim>\<open>fread\<close> has just filled.
\<close>

fun sendFile_loop :: "nat \<Rightarrow> FILE \<Rightarrow> sock \<Rightarrow> status \<times> sock" where
  "sendFile_loop 0 file socketFD =
     (if feof file then (Returned, socketFD) else (Running, socketFD))"
| "sendFile_loop (Suc fuel) file socketFD =
     (if feof file then (Returned, socketFD)
      else
        (let (buffer, file') = fread sizeof_char 500 file;
             numBytesRead = length buffer;
             (success, s') = write_sock socketFD buffer numBytesRead
         in if success < 0 then (Exited ''ERROR writing message to socket.'', s')
            else sendFile_loop fuel file' s'))"

definition sendFile :: "nat \<Rightarrow> env \<Rightarrow> string \<Rightarrow> sock \<Rightarrow> status \<times> sock" where
  "sendFile fuel e fileName socketFD =
     (case fopen e fileName of
        None \<Rightarrow> (Exited ''Can't open file.\<newline>'', socketFD)
      | Some file \<Rightarrow> sendFile_loop fuel file socketFD)"

subsection \<open>handleRequest and the request cycle of main\<close>

text \<open>
  The two \<^verbatim>\<open>strncmp\<close> tests read at most five bytes of the 500-byte buffer. In the
  file-name branch the buffer is read as a C string (\<^verbatim>\<open>printf("%s")\<close>, \<^verbatim>\<open>strcmp\<close>,
  \<^verbatim>\<open>strcpy\<close>): without a NUL in the buffer the string runs on into the bytes behind it.
  \<^verbatim>\<open>strcpy(fileName, buffer)\<close> copies the string and its NUL into a block of
  \<open>BUFFER_SIZE\<close> bytes, and writes outside the block when they do not fit. \<^verbatim>\<open>sendMsg\<close>
  overwrites the command buffer, which is why the file name is copied first; nothing
  reads the buffer afterwards.
\<close>

definition handleRequest :: "nat \<Rightarrow> env \<Rightarrow> string \<Rightarrow> sock \<Rightarrow> status \<times> sock" where
  "handleRequest fuel e buffer socketFD =
     (if strncmp (cstr buffer) ''-l'' 2 = 0 then
        (let r = sendMsg socketFD ''dir\<newline>''
         in if fst r = Returned then sendDir e (snd r) else r)
      else if strncmp (cstr buffer) ''%none'' 5 \<noteq> 0 then
        (let name = cstr (buffer @ beyond e);
             (st, found) = inDir e name
         in if st \<noteq> Returned then (st, socketFD)
            else if found \<noteq> 0 then
              (if BUFFER_SIZE \<le> length name then (Fault, socketFD)
               else
                 (let fileName = name;
                      r = sendMsg socketFD ''fil\<newline>''
                  in if fst r = Returned then sendFile fuel e fileName (snd r) else r))
            else sendMsg socketFD ''nof\<newline>'')
      else sendMsg socketFD ''unk\<newline>'')"

text \<open>
  One cycle of the loop of \<^verbatim>\<open>main\<close> from the first \<^verbatim>\<open>recMsg\<close> on, for a client whose
  control connection was accepted and whose data port accepts the connection:
  the command and the data port are read, the request is handled on the data socket,
  and the data socket is closed.
\<close>

definition main_cycle ::
  "nat \<Rightarrow> env \<Rightarrow> string option \<Rightarrow> string option \<Rightarrow> sock \<Rightarrow> status \<times> sock" where
  "main_cycle fuel e cmd_in port_in dataSockFD =
     (let (st1, buffer) = recMsg cmd_in
      in if st1 \<noteq> Returned then (st1, dataSockFD)
         else
           (let (st2, dataPortStr) = recMsg port_in
            in if st2 \<noteq> Returned then (st2, dataSockFD)
               else
                 (let r = handleRequest fuel e buffer dataSockFD
                  in if fst r = Returned then (Returned, close_sock (snd r)) else r)))"

subsection \<open>Vocabulary of the statements\<close>

text \<open>A framed message: the text, then zero bytes up to the buffer capacity.\<close>

definition frame :: "string \<Rightarrow> string" where
  "frame msg = msg @ replicate (BUFFER_SIZE - length msg) NUL"

text \<open>A transport that reports no error, and one that takes every chunk in full.\<close>

definition no_write_error :: "sock \<Rightarrow> bool" where
  "no_write_error s = list_all (\<lambda>r. 0 \<le> r) (script s)"

definition full_writes :: "sock \<Rightarrow> bool" where
  "full_writes s = list_all (\<lambda>r. int BUFFER_SIZE \<le> r) (script s)"

definition sock0 :: sock where
  "sock0 = \<lparr>calls = [], script = [], closed = False\<rparr>"

text \<open>The entry name carried by a listing message: its C string without the final newline.\<close>

definition entry_name :: "string \<Rightarrow> string" where
  "entry_name m = butlast (cstr m)"





subsection \<open>Example environments\<close>

text \<open>
  The working directory of the example scenario: \<^verbatim>\<open>notes.txt\<close> holds the six bytes
  \<^verbatim>\<open>hello\n\<close>. \<^verbatim>\<open>readdir\<close> also yields the entries \<^verbatim>\<open>.\<close> and \<^verbatim>\<open>..\<close>; they are
  directories, which \<^verbatim>\<open>fopen\<close> opens (as on Linux) and whose every read fails.
\<close>

text \<open>
  The room in a record of Linux \<^verbatim>\<open>getdents64\<close>: 19 bytes of header, the name and its NUL,
  padded to a multiple of 8.
\<close>

definition getdents_room :: "string \<Rightarrow> nat" where
  "getdents_room n = (8 - (20 + length n) mod 8) mod 8"

definition file_hello :: FILE where
  "file_hello = \<lparr>data = ''hello\<newline>'', bad = False, eof = False, err = False\<rparr>"

definition file_unreadable :: FILE where
  "file_unreadable = \<lparr>data = [], bad = True, eof = False, err = False\<rparr>"

definition env_notes :: env where
  "env_notes = \<lparr>opendir = Some [''.'', ''..'', ''notes.txt''],
                 fopen = (\<lambda>n. if n = ''notes.txt'' then Some file_hello
                              else if n = ''.'' then Some file_unreadable
                              else if n = ''..'' then Some file_unreadable
                              else None),
                 closedir_null_returns = True,
                 d_room = getdents_room, d_ino = (\<lambda>n. 1000), beyond = []\<rparr>"

definition env_ab :: env where
  "env_ab = \<lparr>opendir = Some [''a.txt'', ''b.txt''],
              fopen = (\<lambda>n. None),
              closedir_null_returns = True,
              d_room = getdents_room, d_ino = (\<lambda>n. 1000), beyond = []\<rparr>"

text \<open>
  The directory of the second example scenario, a server whose working directory cannot be
  opened, a directory with an entry that \<^verbatim>\<open>fopen\<close> cannot open, and a directory with small
  inode numbers (as on tmpfs) in which the record of \<^verbatim>\<open>abcd\<close> has no room behind the name.
\<close>

definition env_nodir :: env where
  "env_nodir = \<lparr>opendir = None,
                 fopen = (\<lambda>n. if n = ''notes.txt'' then Some file_hello else None),
                 closedir_null_returns = True,
                 d_room = getdents_room, d_ino = (\<lambda>n. 1000), beyond = []\<rparr>"

definition env_locked :: env where
  "env_locked = \<lparr>opendir = Some [''notes.txt'', ''locked.txt''],
                  fopen = (\<lambda>n. if n = ''notes.txt'' then Some file_hello else None),
                  closedir_null_returns = True,
                  d_room = getdents_room, d_ino = (\<lambda>n. 1000), beyond = []\<rparr>"

definition env_tmpfs :: env where
  "env_tmpfs = \<lparr>opendir = Some [''.'', ''..'', ''abcd'', ''wxyz''],
                 fopen = (\<lambda>n. None),
                 closedir_null_returns = True,
                 d_room = getdents_room,
                 d_ino = (\<lambda>n. if n = ''.'' then 2 else if n = ''..'' then 1
                              else if n = ''abcd'' then 3 else 4),
                 beyond = []\<rparr>"

section \<open>Properties of the embedding\<close>

subsection \<open>Buffers and framed messages\<close>

lemma length_frame: "length msg \<le> BUFFER_SIZE \<Longrightarrow> length (frame msg) = BUFFER_SIZE"
  by (simp add: frame_def)

lemma strcpy_bzero: "length msg < BUFFER_SIZE \<Longrightarrow> strcpy (bzero BUFFER_SIZE) msg = Some (frame msg)"
  by (simp add: strcpy_def bzero_def frame_def Let_def Suc_diff_Suc replicate_app_Cons_same flip: replicate_Suc)


lemma cstr_append_NUL: "NUL \<notin> set msg \<Longrightarrow> cstr (msg @ NUL # rest) = msg"
  unfolding cstr_def by (induction msg) auto

lemma cstr_frame: "NUL \<notin> set msg \<Longrightarrow> length msg < BUFFER_SIZE \<Longrightarrow> cstr (frame msg) = msg"
proof -
  assume a: "NUL \<notin> set msg" and b: "length msg < BUFFER_SIZE"
  from b obtain k where k: "BUFFER_SIZE - length msg = Suc k"
    by (cases "BUFFER_SIZE - length msg") auto
  show ?thesis using a by (simp add: frame_def k cstr_append_NUL)
qed

lemma sendMsg_fits:
  "length msg < BUFFER_SIZE \<Longrightarrow>
   sendMsg s msg =
     ((if answer (script s) BUFFER_SIZE < 0 then Exited ''ERROR writing message to socket.'' else Returned),
      s\<lparr>calls := calls s @ [(frame msg, answer (script s) BUFFER_SIZE)], script := drop 1 (script s)\<rparr>)"
  by (simp add: sendMsg_def strcpy_bzero write_sock_def Let_def length_frame)


lemma recMsg_Some: "recMsg (Some bs) = (Returned, take BUFFER_SIZE bs @ replicate (BUFFER_SIZE - length bs) NUL)"
  by (simp add: recMsg_def read_sock_def bzero_def Let_def min_def)

lemma recMsg_None: "recMsg None = (Exited ''ERROR reading from socket'', replicate BUFFER_SIZE NUL)"
  by (simp add: recMsg_def read_sock_def bzero_def)

lemma answer_nonneg: "list_all (\<lambda>r. 0 \<le> r) scr \<Longrightarrow> 0 \<le> answer scr n"
  by (cases scr) (auto simp: answer_def)

lemma answer_full: "list_all (\<lambda>r. int BUFFER_SIZE \<le> r) scr \<Longrightarrow> n \<le> BUFFER_SIZE \<Longrightarrow> answer scr n = int n"
  by (cases scr) (auto simp: answer_def)

lemma inDir_loop_mem: "inDir_loop name entries found = (if name \<in> set entries then 1 else found)"
  by (induction entries arbitrary: found) (auto simp: strcmp_def)

lemma cstr_append_beyond: "NUL \<in> set b \<Longrightarrow> cstr (b @ x) = cstr b"
  by (simp add: cstr_def)

lemma length_cstr_less: "NUL \<in> set b \<Longrightarrow> length (cstr b) < length b"
  unfolding cstr_def by (induction b) auto

lemma recMsg_length: "recMsg incoming = (Returned, buffer) \<Longrightarrow> length buffer = BUFFER_SIZE"
  by (cases incoming) (auto simp: recMsg_Some recMsg_None)

lemma NUL_in_frame: "length msg < BUFFER_SIZE \<Longrightarrow> NUL \<in> set (frame msg)"
  by (simp add: frame_def)

lemma entry_name_frame:
  "NUL \<notin> set n \<Longrightarrow> length n + 1 < BUFFER_SIZE \<Longrightarrow> entry_name (frame (n @ ''\<newline>'')) = n"
  by (simp add: entry_name_def cstr_frame)

subsection \<open>The directory\<close>

lemma inDir_eq:
  "inDir e name = (closedir e (opendir e),
                   (case opendir e of None \<Rightarrow> 0 | Some entries \<Rightarrow> if name \<in> set entries then 1 else 0))"
  by (simp add: inDir_def Let_def inDir_loop_mem split: option.splits)

lemma closedir_ok: "closedir_null_returns e \<or> opendir e \<noteq> None \<Longrightarrow> closedir e (opendir e) = Returned"
  by (auto simp: closedir_def split: option.splits)


lemma listing_path_prefix:
  "(strncmp (cstr buffer) ''-l'' 2 = 0) = (\<exists>rest. cstr buffer = ''-l'' @ rest)"
proof -
  have "(take 2 (cstr buffer) = ''-l'') = (\<exists>rest. cstr buffer = ''-l'' @ rest)"
  proof
    assume "take 2 (cstr buffer) = ''-l''"
    then have "cstr buffer = ''-l'' @ drop 2 (cstr buffer)"
      by (metis append_take_drop_id)
    then show "\<exists>rest. cstr buffer = ''-l'' @ rest" ..
  next
    assume "\<exists>rest. cstr buffer = ''-l'' @ rest"
    then show "take 2 (cstr buffer) = ''-l''" by auto
  qed
  then show ?thesis by (simp add: strncmp_def)
qed

subsection \<open>What the transfer functions add to the trace\<close>


lemma sendMsg_ok:
  assumes "length msg < BUFFER_SIZE" "no_write_error s"
  shows "sendMsg s msg =
     (Returned, s\<lparr>calls := calls s @ [(frame msg, answer (script s) BUFFER_SIZE)], script := drop 1 (script s)\<rparr>)"
  using assms answer_nonneg[of "script s" BUFFER_SIZE]
  by (simp add: sendMsg_fits no_write_error_def)

lemma list_all_drop: "list_all P xs \<Longrightarrow> list_all P (drop n xs)"
  by (auto simp: list_all_iff dest: in_set_dropD)

lemma sendMsg_keeps:
  assumes "length msg < BUFFER_SIZE" "no_write_error s"
  shows "fst (sendMsg s msg) = Returned"
    and "no_write_error (snd (sendMsg s msg))"
    and "requests (snd (sendMsg s msg)) = requests s @ [frame msg]"
    and "closed (snd (sendMsg s msg)) = closed s"
  using assms by (simp_all add: sendMsg_ok no_write_error_def list_all_drop requests_def)


lemma sendDir_loop_ok:
  assumes "list_all (\<lambda>n. length n + 1 < BUFFER_SIZE) entries"
    and "list_all (\<lambda>n. 1 \<le> d_room e n) entries"
    and "no_write_error s"
  shows "fst (sendDir_loop e False entries s) = Returned
       \<and> no_write_error (snd (sendDir_loop e False entries s))
       \<and> requests (snd (sendDir_loop e False entries s)) =
           requests s @ map (\<lambda>n. frame (n @ ''\<newline>'')) entries
       \<and> closed (snd (sendDir_loop e False entries s)) = closed s"
  using assms
proof (induction entries arbitrary: s)
  case Nil
  then show ?case by simp
next
  case (Cons d_name rest)
  let ?m = "d_name @ ''\<newline>''"
  have len: "length ?m < BUFFER_SIZE" using Cons.prems(1) by simp
  note k = sendMsg_keeps[OF len Cons.prems(3)]
  have rest: "list_all (\<lambda>n. length n + 1 < BUFFER_SIZE) rest" "list_all (\<lambda>n. 1 \<le> d_room e n) rest"
    using Cons.prems(1,2) by simp_all
  have room: "\<not> d_room e d_name < 1" using Cons.prems(2) by simp
  from Cons.IH[OF rest k(2)] k room show ?case
    by (simp add: Let_def strcat_def)
qed




lemma sendFile_loop_step:
  assumes "fread sizeof_char 500 f = (buffer, f')" "write_sock s buffer (length buffer) = (success, s')"
  shows "sendFile_loop (Suc fuel) f s =
     (if feof f then (Returned, s)
      else if success < 0 then (Exited ''ERROR writing message to socket.'', s')
      else sendFile_loop fuel f' s')"
  using assms by simp




lemma accepted_full: "concat (map (accepted \<circ> (\<lambda>c. (c, int (length c)))) chunks) = concat chunks"
  by (induction chunks) (simp_all add: accepted_def)

lemma sendMsg_full:
  assumes "length msg < BUFFER_SIZE" "full_writes s"
  shows "sendMsg s msg =
     (Returned, s\<lparr>calls := calls s @ [(frame msg, int BUFFER_SIZE)], script := drop 1 (script s)\<rparr>)"
  using assms answer_full[of "script s" BUFFER_SIZE]
  by (simp add: sendMsg_fits full_writes_def)

subsection \<open>The chunk loop\<close>

lemma div_500_step: "(500::nat) \<le> n \<Longrightarrow> n div 500 < Suc fuel \<Longrightarrow> (n - 500) div 500 < fuel"
  by (simp add: le_div_geq)

lemma fread_full:
  "500 \<le> length (data f) \<Longrightarrow> fread sizeof_char 500 f = (take 500 (data f), f\<lparr>data := drop 500 (data f)\<rparr>)"
  by (simp add: fread_def sizeof_char_def)

lemma fread_short:
  "length (data f) < 500 \<Longrightarrow>
   fread sizeof_char 500 f = (data f, f\<lparr>data := [], eof := (if bad f then eof f else True),
                              err := (if bad f then True else err f)\<rparr>)"
  by (simp add: fread_def sizeof_char_def)

lemma sendFile_loop_eof: "feof f \<Longrightarrow> sendFile_loop fuel f s = (Returned, s)"
  by (cases fuel) simp_all


lemma write_sock_full:
  assumes "full_writes s" "length b \<le> BUFFER_SIZE"
  shows "write_sock s b (length b) =
           (int (length b), s\<lparr>calls := calls s @ [(b, int (length b))], script := drop 1 (script s)\<rparr>)"
  using assms by (simp add: write_sock_def Let_def answer_full full_writes_def)

lemma sendFile_loop_ok:
  assumes "\<not> bad f" "\<not> eof f" "full_writes s" "length (data f) div 500 < fuel"
  shows "\<exists>chunks. sendFile_loop fuel f s =
            (Returned, s\<lparr>calls := calls s @ map (\<lambda>c. (c, int (length c))) chunks,
                          script := drop (length chunks) (script s)\<rparr>)
          \<and> list_all (\<lambda>c. length c \<le> BUFFER_SIZE) chunks
          \<and> concat chunks = data f"
  using assms
proof (induction fuel arbitrary: f s)
  case 0
  then show ?case by simp
next
  case (Suc fuel)
  have nf: "\<not> feof f" using Suc.prems(2) by (simp add: feof_def)
  show ?case
  proof (cases "500 \<le> length (data f)")
    case True
    let ?c = "take 500 (data f)"
    let ?f' = "f\<lparr>data := drop 500 (data f)\<rparr>"
    let ?s' = "s\<lparr>calls := calls s @ [(?c, int (length ?c))], script := drop 1 (script s)\<rparr>"
    have fr: "fread sizeof_char 500 f = (?c, ?f')" using True by (simp add: fread_full)
    have wr: "write_sock s ?c (length ?c) = (int (length ?c), ?s')"
      by (rule write_sock_full[OF Suc.prems(3)]) (simp add: BUFFER_SIZE_def)
    have step: "sendFile_loop (Suc fuel) f s = sendFile_loop fuel ?f' ?s'"
      using nf by (simp add: sendFile_loop_step[OF fr wr] del: sendFile_loop.simps)
    have "length (data ?f') div 500 < fuel"
      using True Suc.prems(4) by (simp add: div_500_step)
    moreover have "full_writes ?s'" using Suc.prems(3) by (simp add: full_writes_def list_all_drop)
    ultimately obtain chunks where ch:
      "sendFile_loop fuel ?f' ?s' =
          (Returned, ?s'\<lparr>calls := calls ?s' @ map (\<lambda>c. (c, int (length c))) chunks,
                          script := drop (length chunks) (script ?s')\<rparr>)"
      "list_all (\<lambda>c. length c \<le> BUFFER_SIZE) chunks" "concat chunks = data ?f'"
      using Suc.IH[of ?f' ?s'] Suc.prems(1,2) by auto
    have eq: "?s'\<lparr>calls := calls ?s' @ map (\<lambda>c. (c, int (length c))) chunks,
                   script := drop (length chunks) (script ?s')\<rparr> =
              s\<lparr>calls := calls s @ map (\<lambda>c. (c, int (length c))) (?c # chunks),
                 script := drop (length (?c # chunks)) (script s)\<rparr>"
      by simp
    have "sendFile_loop (Suc fuel) f s =
            (Returned, s\<lparr>calls := calls s @ map (\<lambda>c. (c, int (length c))) (?c # chunks),
                          script := drop (length (?c # chunks)) (script s)\<rparr>)"
      by (simp only: step ch(1) eq)
    moreover have "list_all (\<lambda>c. length c \<le> BUFFER_SIZE) (?c # chunks)"
      using ch(2) by (simp add: BUFFER_SIZE_def)
    moreover have "concat (?c # chunks) = data f" using ch(3) by simp
    ultimately show ?thesis by blast
  next
    case False
    let ?c = "data f"
    let ?f' = "f\<lparr>data := [], eof := True, err := err f\<rparr>"
    let ?s' = "s\<lparr>calls := calls s @ [(?c, int (length ?c))], script := drop 1 (script s)\<rparr>"
    have fr: "fread sizeof_char 500 f = (?c, ?f')" using False Suc.prems(1) by (simp add: fread_short)
    have wr: "write_sock s ?c (length ?c) = (int (length ?c), ?s')"
      by (rule write_sock_full[OF Suc.prems(3)]) (use False in \<open>simp add: BUFFER_SIZE_def\<close>)
    have "sendFile_loop (Suc fuel) f s = (Returned, ?s')"
      using nf by (simp add: sendFile_loop_step[OF fr wr] sendFile_loop_eof feof_def del: sendFile_loop.simps)
    then have "sendFile_loop (Suc fuel) f s =
            (Returned, s\<lparr>calls := calls s @ map (\<lambda>c. (c, int (length c))) [?c],
                          script := drop (length [?c]) (script s)\<rparr>)"
      by simp
    moreover have "list_all (\<lambda>c. length c \<le> BUFFER_SIZE) [?c]"
      using False by (simp add: BUFFER_SIZE_def)
    moreover have "concat [?c] = data f" by simp
    ultimately show ?thesis by blast
  qed
qed

lemma write_sock_no_error:
  assumes "no_write_error s"
  shows "0 \<le> fst (write_sock s b n)" and "no_write_error (snd (write_sock s b n))"
  using assms answer_nonneg[of "script s"]
  by (simp_all add: write_sock_def Let_def no_write_error_def list_all_drop)

lemma sendFile_loop_read_error:
  assumes "bad f" "\<not> eof f" "no_write_error s"
  shows "fst (sendFile_loop fuel f s) = Running"
  using assms
proof (induction fuel arbitrary: f s)
  case 0
  then show ?case by (simp add: feof_def)
next
  case (Suc fuel)
  obtain buffer f' where fr: "fread sizeof_char 500 f = (buffer, f')" by (cases "fread sizeof_char 500 f")
  obtain success s' where wr: "write_sock s buffer (length buffer) = (success, s')"
    by (cases "write_sock s buffer (length buffer)")
  have f': "bad f' \<and> \<not> eof f'"
    using fr Suc.prems(1,2) by (cases "500 \<le> length (data f)") (auto simp: fread_full fread_short)
  have s': "0 \<le> success \<and> no_write_error s'"
    using write_sock_no_error[OF Suc.prems(3), of buffer "length buffer"] wr by simp
  show ?case using Suc.IH[of f' s'] f' s' Suc.prems(2)
    by (simp add: sendFile_loop_step[OF fr wr] feof_def del: sendFile_loop.simps)
qed

subsection \<open>A record without room\<close>

text \<open>
  In \<open>env_tmpfs\<close> the name \<^verbatim>\<open>abcd\<close> fills its record, so the NUL that \<^verbatim>\<open>strcat\<close> moves
  clears the low byte of the \<open>d_ino\<close> of the next record; that inode number is 4, the
  field becomes 0, and \<^verbatim>\<open>readdir\<close> skips \<^verbatim>\<open>wxyz\<close>: the listing lacks an entry that
  \<^verbatim>\<open>inDir\<close> finds.
\<close>

lemma listing_skips_hit_record:
  "d_room env_tmpfs ''abcd'' = 0
   \<and> inDir env_tmpfs ''wxyz'' = (Returned, 1)
   \<and> handleRequest 0 env_tmpfs (frame ''-l'') sock0 =
       (Returned, \<lparr>calls = [(frame ''dir\<newline>'', 500), (frame ''.\<newline>'', 500),
                            (frame ''..\<newline>'', 500), (frame ''abcd\<newline>'', 500),
                            (frame ''~done\<newline>'', 500)],
                   script = [], closed = False\<rparr>)"
  by (simp add: handleRequest_def strncmp_def cstr_frame sendDir_def inDir_eq env_tmpfs_def
        getdents_room_def closedir_def strcat_def sendMsg_fits answer_def sock0_def
        BUFFER_SIZE_def Let_def)

subsection \<open>Names that are not in the directory\<close>


section \<open>The claims\<close>

text \<open>
  C1 (as amended). Let the command received on the control connection name an entry of the
  working directory, let it begin neither with \<^verbatim>\<open>-l\<close> nor with \<^verbatim>\<open>%none\<close>, let
  \<^verbatim>\<open>fopen\<close> open it and every read of it succeed, and let the transport take every
  write in full. Then the cycle returns; the writes on the data socket are the framed
  \<^verbatim>\<open>fil\<close> tag followed by chunks of at most 500 bytes whose concatenation is the content
  of the file; the bytes on the wire are the tag frame followed by the content; and the data
  socket is closed. The fuel bounds the number of iterations: one more than the number of
  full chunks is enough.
\<close>

theorem file_transfer:
  assumes "recMsg cmd_in = (Returned, buffer)" and "recMsg port_in = (Returned, dataPortStr)"
    and "NUL \<in> set buffer"
    and "strncmp (cstr buffer) ''-l'' 2 \<noteq> 0" and "strncmp (cstr buffer) ''%none'' 5 \<noteq> 0"
    and "opendir e = Some entries" and "cstr buffer \<in> set entries"
    and "fopen e (cstr buffer) = Some file" and "\<not> bad file" and "\<not> eof file"
    and "full_writes s"
    and "length (data file) div 500 < fuel"
  shows "\<exists>chunks s'.
           main_cycle fuel e cmd_in port_in s = (Returned, s')
         \<and> requests s' = requests s @ frame ''fil\<newline>'' # chunks
         \<and> list_all (\<lambda>c. length c \<le> BUFFER_SIZE) chunks
         \<and> concat chunks = data file
         \<and> wire s' = wire s @ frame ''fil\<newline>'' @ data file
         \<and> closed s'"
proof -
  define s1 where
    "s1 = s\<lparr>calls := calls s @ [(frame ''fil\<newline>'', int BUFFER_SIZE)], script := drop 1 (script s)\<rparr>"
  have l1: "length ''fil\<newline>'' < BUFFER_SIZE" by (simp add: BUFFER_SIZE_def)
  have tag: "sendMsg s ''fil\<newline>'' = (Returned, s1)"
    unfolding s1_def by (rule sendMsg_full[OF l1 assms(11)])
  have fw: "full_writes s1" using assms(11) by (simp add: s1_def full_writes_def list_all_drop)
  obtain chunks where ch:
    "sendFile_loop fuel file s1 =
       (Returned, s1\<lparr>calls := calls s1 @ map (\<lambda>c. (c, int (length c))) chunks,
                      script := drop (length chunks) (script s1)\<rparr>)"
    "list_all (\<lambda>c. length c \<le> BUFFER_SIZE) chunks" "concat chunks = data file"
    using sendFile_loop_ok[OF assms(9,10) fw assms(12)] by blast
  define s2 where
    "s2 = s1\<lparr>calls := calls s1 @ map (\<lambda>c. (c, int (length c))) chunks,
              script := drop (length chunks) (script s1)\<rparr>"
  have nm: "cstr (buffer @ beyond e) = cstr buffer"
    by (rule cstr_append_beyond[OF assms(3)])
  have fits: "\<not> BUFFER_SIZE \<le> length (cstr buffer)"
    using length_cstr_less[OF assms(3)] recMsg_length[OF assms(1)] by simp
  have "inDir e (cstr buffer) = (Returned, 1)"
    using assms(6,7) by (simp add: inDir_eq closedir_def)
  then have "handleRequest fuel e buffer s = (Returned, s2)"
    using assms(4,5,8) fits
    by (simp add: handleRequest_def Let_def nm tag sendFile_def ch(1) s2_def)
  then have A: "main_cycle fuel e cmd_in port_in s = (Returned, close_sock s2)"
    using assms(1,2) by (simp add: main_cycle_def)
  have B: "requests (close_sock s2) = requests s @ frame ''fil\<newline>'' # chunks"
    by (simp add: close_sock_def requests_def comp_def s2_def s1_def)
  have "length (frame ''fil\<newline>'') = BUFFER_SIZE" by (simp add: length_frame BUFFER_SIZE_def)
  then have C: "wire (close_sock s2) = wire s @ frame ''fil\<newline>'' @ data file"
    by (simp add: close_sock_def wire_def accepted_full ch(3) s2_def s1_def) (simp add: accepted_def)
  have D: "closed (close_sock s2)" by (simp add: close_sock_def)
  show ?thesis
    by (rule exI[of _ chunks], rule exI[of _ "close_sock s2"]) (intro conjI A B C D ch(2,3))
qed

theorem file_transfer_witness:
  "recMsg (Some ''notes.txt'') = (Returned, frame ''notes.txt'')
   \<and> recMsg (Some ''51000'') = (Returned, frame ''51000'')
   \<and> NUL \<in> set (frame ''notes.txt'')
   \<and> strncmp (cstr (frame ''notes.txt'')) ''-l'' 2 \<noteq> 0
   \<and> strncmp (cstr (frame ''notes.txt'')) ''%none'' 5 \<noteq> 0
   \<and> opendir env_notes = Some [''.'', ''..'', ''notes.txt'']
   \<and> cstr (frame ''notes.txt'') \<in> set [''.'', ''..'', ''notes.txt'']
   \<and> fopen env_notes (cstr (frame ''notes.txt'')) = Some file_hello
   \<and> \<not> bad file_hello \<and> \<not> eof file_hello
   \<and> full_writes sock0
   \<and> length (data file_hello) div 500 < 1
   \<and> main_cycle 1 env_notes (Some ''notes.txt'') (Some ''51000'') sock0 =
        (Returned, \<lparr>calls = [(frame ''fil\<newline>'', 500), (''hello\<newline>'', 6)], script = [], closed = True\<rparr>)"
proof -
  have a: "recMsg (Some ''notes.txt'') = (Returned, frame ''notes.txt'')"
    and b: "recMsg (Some ''51000'') = (Returned, frame ''51000'')"
    by (simp_all add: recMsg_Some frame_def BUFFER_SIZE_def)
  have n: "NUL \<in> set (frame ''notes.txt'')" by (simp add: NUL_in_frame BUFFER_SIZE_def)
  have cs: "cstr (frame ''notes.txt'') = ''notes.txt''" by (simp add: cstr_frame BUFFER_SIZE_def)
  have c: "strncmp (cstr (frame ''notes.txt'')) ''-l'' 2 \<noteq> 0"
    "strncmp (cstr (frame ''notes.txt'')) ''%none'' 5 \<noteq> 0"
    by (simp_all add: strncmp_def cs)
  have d: "opendir env_notes = Some [''.'', ''..'', ''notes.txt'']"
    and o: "fopen env_notes (cstr (frame ''notes.txt'')) = Some file_hello"
    by (simp_all add: env_notes_def cs)
  have m: "cstr (frame ''notes.txt'') \<in> set [''.'', ''..'', ''notes.txt'']" by (simp add: cs)
  have f: "\<not> bad file_hello" "\<not> eof file_hello" "length (data file_hello) div 500 < 1"
    by (simp_all add: file_hello_def)
  have w: "full_writes sock0" by (simp add: full_writes_def sock0_def)
  from file_transfer[OF a b n c d m o f(1,2) w f(3)]
  obtain chunks s' where r:
    "main_cycle 1 env_notes (Some ''notes.txt'') (Some ''51000'') sock0 = (Returned, s')"
    "requests s' = requests sock0 @ frame ''fil\<newline>'' # chunks" "closed s'"
    by blast
  have "main_cycle 1 env_notes (Some ''notes.txt'') (Some ''51000'') sock0 =
        (Returned, \<lparr>calls = [(frame ''fil\<newline>'', 500), (''hello\<newline>'', 6)], script = [], closed = True\<rparr>)"
    using r(1)
    by (simp add: main_cycle_def a b handleRequest_def cstr_append_beyond[OF n] cs strncmp_def
          inDir_eq closedir_def env_notes_def sendMsg_fits sendFile_def file_hello_def feof_def
          fread_def sizeof_char_def write_sock_def answer_def sock0_def close_sock_def
          BUFFER_SIZE_def Let_def)
  with a b n c d m o f w show ?thesis by simp
qed

text \<open>
  C1 as stated fails: \<^verbatim>\<open>locked.txt\<close> is an entry of the directory that \<^verbatim>\<open>fopen\<close> cannot
  open. \<^verbatim>\<open>inDir\<close> finds it, the \<^verbatim>\<open>fil\<close> tag is sent, and the guard after \<^verbatim>\<open>fopen\<close>
  terminates the process: no byte of the file follows the tag.
\<close>

theorem file_transfer_counterexample:
  "inDir env_locked ''locked.txt'' = (Returned, 1)
   \<and> main_cycle 1 env_locked (Some ''locked.txt'') (Some ''51000'') sock0 =
        (Exited ''Can't open file.\<newline>'',
         \<lparr>calls = [(frame ''fil\<newline>'', 500)], script = [], closed = False\<rparr>)"
proof -
  have cs: "cstr (frame ''locked.txt'') = ''locked.txt''" by (simp add: cstr_frame BUFFER_SIZE_def)
  have a: "recMsg (Some ''locked.txt'') = (Returned, frame ''locked.txt'')"
    and b: "recMsg (Some ''51000'') = (Returned, frame ''51000'')"
    by (simp_all add: recMsg_Some frame_def BUFFER_SIZE_def)
  have n: "NUL \<in> set (frame ''locked.txt'')" by (simp add: NUL_in_frame BUFFER_SIZE_def)
  show ?thesis
    by (simp add: main_cycle_def a b handleRequest_def cstr_append_beyond[OF n] cs strncmp_def
          inDir_eq env_locked_def closedir_def sendMsg_fits sendFile_def answer_def sock0_def
          BUFFER_SIZE_def Let_def)
qed



text \<open>
  C3. The claim is that only the token \<^verbatim>\<open>-l\<close> itself is a listing request. The code
  compares the first two bytes only (\<open>listing_path_prefix\<close>): the command \<^verbatim>\<open>-lx\<close> gets
  the \<^verbatim>\<open>dir\<close> tag, the listing and the \<^verbatim>\<open>~done\<close> line.
\<close>

theorem listing_on_prefix:
  "cstr (frame ''-lx'') = ''-lx''
   \<and> handleRequest 0 env_ab (frame ''-lx'') sock0 =
       (Returned, \<lparr>calls = [(frame ''dir\<newline>'', 500), (frame ''a.txt\<newline>'', 500),
                            (frame ''b.txt\<newline>'', 500), (frame ''~done\<newline>'', 500)],
                   script = [], closed = False\<rparr>)"
proof -
  have cs: "cstr (frame ''-lx'') = ''-lx''" by (simp add: cstr_frame BUFFER_SIZE_def)
  show ?thesis
    by (simp add: cs handleRequest_def strncmp_def sendDir_def env_ab_def closedir_def strcat_def
          sendMsg_fits answer_def sock0_def BUFFER_SIZE_def Let_def)
qed

text \<open>
  C4. The claim is that every command other than \<^verbatim>\<open>-l\<close> and \<^verbatim>\<open>%none\<close> that names no
  entry of the directory is answered by the \<^verbatim>\<open>nof\<close> tag alone. The code does so for the
  commands that begin with neither of the two (\<open>absent_name_nof\<close>); \<^verbatim>\<open>%nonesuch.txt\<close> is
  answered by the \<^verbatim>\<open>unk\<close> tag and \<^verbatim>\<open>-lx\<close> by the listing, though neither names an entry.
\<close>

theorem absent_name_other_tag:
  "cstr (frame ''%nonesuch.txt'') = ''%nonesuch.txt''
   \<and> inDir env_ab ''%nonesuch.txt'' = (Returned, 0)
   \<and> handleRequest 0 env_ab (frame ''%nonesuch.txt'') sock0 =
       (Returned, \<lparr>calls = [(frame ''unk\<newline>'', 500)], script = [], closed = False\<rparr>)
   \<and> inDir env_ab ''-lx'' = (Returned, 0)
   \<and> requests (snd (handleRequest 0 env_ab (frame ''-lx'') sock0)) =
       [frame ''dir\<newline>'', frame ''a.txt\<newline>'', frame ''b.txt\<newline>'', frame ''~done\<newline>'']"
proof -
  have cs: "cstr (frame ''%nonesuch.txt'') = ''%nonesuch.txt''" "cstr (frame ''-lx'') = ''-lx''"
    by (simp_all add: cstr_frame BUFFER_SIZE_def)
  show ?thesis
    by (simp add: cs handleRequest_def strncmp_def sendDir_def inDir_eq env_ab_def closedir_def
          strcat_def sendMsg_fits answer_def sock0_def requests_def BUFFER_SIZE_def Let_def)
qed

text \<open>
  C5 (as amended). For a listing command, a directory that opens, records that have room
  for the appended newline, entry names that fit a message and a transport that reports no
  error: \<^verbatim>\<open>handleRequest\<close> returns, and its writes are the framed \<^verbatim>\<open>dir\<close> tag, then one
  framed message per directory entry (the name with a newline appended, in the order of
  \<^verbatim>\<open>readdir\<close>), then one framed \<^verbatim>\<open>~done\<close> line. The names carried by the entry messages
  are the names of the directory.
\<close>

theorem listing_response:
  assumes "strncmp (cstr buffer) ''-l'' 2 = 0"
    and "opendir e = Some entries"
    and "list_all (\<lambda>n. 1 \<le> d_room e n) entries"
    and "list_all (\<lambda>n. length n + 1 < BUFFER_SIZE) entries"
    and "list_all (\<lambda>n. NUL \<notin> set n) entries"
    and "no_write_error s"
  shows "\<exists>msgs s'.
           handleRequest fuel e buffer s = (Returned, s')
         \<and> requests s' = requests s @ frame ''dir\<newline>'' # msgs @ [frame ''~done\<newline>'']
         \<and> msgs = map (\<lambda>n. frame (n @ ''\<newline>'')) entries
         \<and> set (map entry_name msgs) = set entries"
proof -
  define r where "r = sendMsg s ''dir\<newline>''"
  define l where "l = sendDir_loop e False entries (snd r)"
  define d where "d = sendMsg (snd l) ''~done\<newline>''"
  let ?msgs = "map (\<lambda>n. frame (n @ ''\<newline>'')) entries"
  have l1: "length ''dir\<newline>'' < BUFFER_SIZE" and l2: "length ''~done\<newline>'' < BUFFER_SIZE"
    by (simp_all add: BUFFER_SIZE_def)
  note r = sendMsg_keeps[OF l1 assms(6), folded r_def]
  from sendDir_loop_ok[OF assms(4,3) r(2), folded l_def]
  have l: "fst l = Returned" "no_write_error (snd l)" "requests (snd l) = requests (snd r) @ ?msgs"
    by simp_all
  note d = sendMsg_keeps[OF l2 l(2), folded d_def]
  have A: "handleRequest fuel e buffer s = (Returned, snd d)"
    using assms(1,2) r(1) l(1) d(1)
    by (simp add: handleRequest_def sendDir_def Let_def closedir_def prod_eq_iff
             flip: r_def l_def d_def)
  have B: "requests (snd d) = requests s @ frame ''dir\<newline>'' # ?msgs @ [frame ''~done\<newline>'']"
    by (simp only: d(3) l(3) r(3)) simp
  have "map entry_name ?msgs = entries"
    using assms(4,5) by (induction entries) (simp_all add: entry_name_frame)
  then have C: "set (map entry_name ?msgs) = set entries"
    by (simp only:)
  show ?thesis
    by (rule exI[of _ ?msgs], rule exI[of _ "snd d"]) (intro conjI A B C refl)
qed

theorem listing_response_witness:
  "strncmp (cstr (frame ''-l'')) ''-l'' 2 = 0
   \<and> opendir env_ab = Some [''a.txt'', ''b.txt'']
   \<and> list_all (\<lambda>n. 1 \<le> d_room env_ab n) [''a.txt'', ''b.txt'']
   \<and> list_all (\<lambda>n. length n + 1 < BUFFER_SIZE) [''a.txt'', ''b.txt'']
   \<and> list_all (\<lambda>n. NUL \<notin> set n) [''a.txt'', ''b.txt'']
   \<and> no_write_error sock0
   \<and> (\<exists>s'. handleRequest 0 env_ab (frame ''-l'') sock0 = (Returned, s')
         \<and> requests s' = [frame ''dir\<newline>'', frame ''a.txt\<newline>'', frame ''b.txt\<newline>'',
                           frame ''~done\<newline>''])"
proof -
  have a: "strncmp (cstr (frame ''-l'')) ''-l'' 2 = 0"
    by (simp add: strncmp_def cstr_frame BUFFER_SIZE_def)
  have b: "opendir env_ab = Some [''a.txt'', ''b.txt'']" by (simp add: env_ab_def)
  have r: "list_all (\<lambda>n. 1 \<le> d_room env_ab n) [''a.txt'', ''b.txt'']"
    by (simp add: env_ab_def getdents_room_def)
  have c: "list_all (\<lambda>n. length n + 1 < BUFFER_SIZE) [''a.txt'', ''b.txt'']"
    by (simp add: BUFFER_SIZE_def)
  have d: "list_all (\<lambda>n. NUL \<notin> set n) [''a.txt'', ''b.txt'']" by simp
  have e: "no_write_error sock0" by (simp add: no_write_error_def sock0_def)
  from listing_response[OF a b r c d e, of 0]
  have "\<exists>s'. handleRequest 0 env_ab (frame ''-l'') sock0 = (Returned, s')
         \<and> requests s' = [frame ''dir\<newline>'', frame ''a.txt\<newline>'', frame ''b.txt\<newline>'',
                           frame ''~done\<newline>'']"
    by (elim exE conjE) (simp add: requests_def sock0_def)
  with a b r c d e show ?thesis by simp
qed

text \<open>
  C5 as stated fails: when \<^verbatim>\<open>opendir\<close> fails the guard \<^verbatim>\<open>if(d)\<close> skips the loop and the
  \<^verbatim>\<open>~done\<close> line, and the response to the listing command is the \<^verbatim>\<open>dir\<close> tag alone.
\<close>

theorem listing_response_counterexample:
  "strncmp (cstr (frame ''-l'')) ''-l'' 2 = 0
   \<and> handleRequest 0 env_nodir (frame ''-l'') sock0 =
       (Returned, \<lparr>calls = [(frame ''dir\<newline>'', 500)], script = [], closed = False\<rparr>)"
  by (simp add: handleRequest_def strncmp_def cstr_frame sendDir_def env_nodir_def closedir_def
        sendMsg_fits answer_def sock0_def BUFFER_SIZE_def Let_def)

text \<open>
  C6. The claim is that a partial write and a read error terminate the process. The code
  tests \<^verbatim>\<open>success < 0\<close> only and never looks at the error indicator of the stream. When
  the transport takes 3 of the 6 bytes of \<^verbatim>\<open>notes.txt\<close>, \<^verbatim>\<open>sendFile\<close> returns normally
  with \<^verbatim>\<open>hel\<close> on the wire. The entry \<^verbatim>\<open>.\<close> is found by \<^verbatim>\<open>inDir\<close> and its reads fail:
  after the \<^verbatim>\<open>fil\<close> tag the loop goes on writing empty chunks
  (\<open>sendFile_loop_read_error\<close>: it is still running after any number of iterations).
\<close>

theorem partial_write_not_fatal:
  "sendFile 1 env_notes ''notes.txt'' (sock0\<lparr>script := [3]\<rparr>) =
       (Returned, \<lparr>calls = [(''hello\<newline>'', 3)], script = [], closed = False\<rparr>)
   \<and> wire \<lparr>calls = [(''hello\<newline>'', 3)], script = [], closed = False\<rparr> = ''hel''
   \<and> inDir env_notes ''.'' = (Returned, 1)
   \<and> handleRequest 2 env_notes (frame ''.'') sock0 =
       (Running, \<lparr>calls = [(frame ''fil\<newline>'', 500), ([], 0), ([], 0)],
                  script = [], closed = False\<rparr>)"
proof -
  have cs: "cstr (frame ''.'') = ''.''" by (simp add: cstr_frame BUFFER_SIZE_def)
  have n: "NUL \<in> set (frame ''.'')" by (simp add: NUL_in_frame BUFFER_SIZE_def)
  show ?thesis
    by (simp add: cs n handleRequest_def strncmp_def inDir_eq closedir_def sendMsg_fits
          sendFile_def env_notes_def file_hello_def file_unreadable_def feof_def fread_def
          sizeof_char_def write_sock_def answer_def sock0_def wire_def accepted_def Let_def
          BUFFER_SIZE_def numeral_2_eq_2)
qed

text \<open>
  C7. For a text that fits the buffer, \<^verbatim>\<open>sendMsg\<close> issues exactly one \<^verbatim>\<open>write\<close> call; the
  bytes requested are the text followed by zero bytes up to the capacity, 500 bytes in
  all; the process terminates exactly when the transport answers a negative value.
  \<^verbatim>\<open>recMsg\<close> leaves a 500-byte buffer holding the bytes read (at most 500) followed by
  zero bytes, and terminates the process on a negative result.
\<close>

theorem sendMsg_recMsg_framing:
  assumes "length msg < BUFFER_SIZE"
  shows "calls (snd (sendMsg s msg)) =
           calls s @ [(msg @ replicate (BUFFER_SIZE - length msg) NUL, answer (script s) BUFFER_SIZE)]
       \<and> length (msg @ replicate (BUFFER_SIZE - length msg) NUL) = 500
       \<and> fst (sendMsg s msg) =
           (if answer (script s) BUFFER_SIZE < 0 then Exited ''ERROR writing message to socket.''
            else Returned)
       \<and> recMsg (Some bs) = (Returned, take 500 bs @ replicate (500 - length bs) NUL)
       \<and> length (snd (recMsg (Some bs))) = 500
       \<and> recMsg None = (Exited ''ERROR reading from socket'', replicate 500 NUL)"
  using assms
  by (simp add: sendMsg_fits recMsg_Some recMsg_None) (simp add: frame_def BUFFER_SIZE_def)

theorem sendMsg_recMsg_framing_witness:
  "length ''fil\<newline>'' < BUFFER_SIZE
   \<and> calls (snd (sendMsg sock0 ''fil\<newline>'')) = [(''fil\<newline>'' @ replicate 496 NUL, 500)]
   \<and> fst (sendMsg sock0 ''fil\<newline>'') = Returned
   \<and> fst (sendMsg (sock0\<lparr>script := [- 1]\<rparr>) ''fil\<newline>'') = Exited ''ERROR writing message to socket.''
   \<and> recMsg (Some ''-l'') = (Returned, ''-l'' @ replicate 498 NUL)"
  using sendMsg_recMsg_framing[of "''fil\<newline>''" sock0 "''-l''"]
        sendMsg_recMsg_framing[of "''fil\<newline>''" "sock0\<lparr>script := [- 1]\<rparr>" "''-l''"]
  by (simp add: BUFFER_SIZE_def sock0_def answer_def)

text \<open>
  C8. On a stream whose reads all succeed the chunk loop ends: with more fuel than the file
  has full chunks it is not left running, it has returned or a failed write has terminated
  the process. The loop makes at most \<open>length (data file) div 500 + 1\<close> iterations.
\<close>

theorem chunk_loop_terminates:
  assumes "\<not> bad f" "length (data f) div 500 < fuel"
  shows "fst (sendFile_loop fuel f s) = Returned
       \<or> fst (sendFile_loop fuel f s) = Exited ''ERROR writing message to socket.''"
  using assms
proof (induction fuel arbitrary: f s)
  case 0
  then show ?case by simp
next
  case (Suc fuel)
  obtain buffer f' where fr: "fread sizeof_char 500 f = (buffer, f')" by (cases "fread sizeof_char 500 f")
  obtain success s' where wr: "write_sock s buffer (length buffer) = (success, s')"
    by (cases "write_sock s buffer (length buffer)")
  note step = sendFile_loop_step[OF fr wr, of fuel]
  show ?case
  proof (cases "500 \<le> length (data f)")
    case True
    then have f': "f' = f\<lparr>data := drop 500 (data f)\<rparr>" using fr by (simp add: fread_full)
    have "length (data f') div 500 < fuel"
      using True Suc.prems(2) by (simp add: f' div_500_step)
    moreover have "\<not> bad f'" using Suc.prems(1) by (simp add: f')
    ultimately show ?thesis using Suc.IH[of f' s'] by (simp add: step del: sendFile_loop.simps)
  next
    case False
    then have "feof f'" using fr Suc.prems(1) by (auto simp: fread_short feof_def)
    then show ?thesis by (simp add: step sendFile_loop_eof del: sendFile_loop.simps)
  qed
qed

theorem chunk_loop_terminates_witness:
  "\<not> bad file_hello \<and> length (data file_hello) div 500 < 1
   \<and> sendFile_loop 1 file_hello sock0 =
       (Returned, \<lparr>calls = [(''hello\<newline>'', 6)], script = [], closed = False\<rparr>)
   \<and> fst (sendFile_loop 2 \<lparr>data = replicate 500 CHR ''a'', bad = False, eof = False, err = False\<rparr>
              (sock0\<lparr>script := [500, - 1]\<rparr>)) = Exited ''ERROR writing message to socket.''"
  using chunk_loop_terminates[of file_hello 1 sock0]
    chunk_loop_terminates[of "\<lparr>data = replicate 500 CHR ''a'', bad = False, eof = False, err = False\<rparr>"
      2 "sock0\<lparr>script := [500, - 1]\<rparr>"]
  by (simp add: file_hello_def feof_def fread_def sizeof_char_def write_sock_def answer_def
        sock0_def Let_def numeral_2_eq_2)

text \<open>
  C9. A listing is requested and \<^verbatim>\<open>opendir\<close> fails (and \<^verbatim>\<open>closedir(NULL)\<close> returns): the
  only write on the data socket is the framed \<^verbatim>\<open>dir\<close> tag, no entry and no \<^verbatim>\<open>~done\<close>
  line follow, the process goes on and \<^verbatim>\<open>main\<close> closes the data socket.
\<close>

theorem listing_unopenable_directory:
  assumes "recMsg cmd_in = (Returned, buffer)" and "recMsg port_in = (Returned, dataPortStr)"
    and "strncmp (cstr buffer) ''-l'' 2 = 0"
    and "opendir e = None" and "closedir_null_returns e"
    and "no_write_error s"
  shows "\<exists>s'. main_cycle fuel e cmd_in port_in s = (Returned, s')
            \<and> requests s' = requests s @ [frame ''dir\<newline>'']
            \<and> closed s'"
proof -
  let ?r = "sendMsg s ''dir\<newline>''"
  have l1: "length ''dir\<newline>'' < BUFFER_SIZE" by (simp add: BUFFER_SIZE_def)
  note r = sendMsg_keeps[OF l1 assms(6)]
  have "handleRequest fuel e buffer s = (Returned, snd ?r)"
    using assms(3,4,5) r(1) by (simp add: handleRequest_def sendDir_def Let_def closedir_def)
  then have "main_cycle fuel e cmd_in port_in s = (Returned, close_sock (snd ?r))"
    using assms(1,2) by (simp add: main_cycle_def)
  moreover have "requests (close_sock (snd ?r)) = requests s @ [frame ''dir\<newline>'']"
    using r(3) by (simp add: close_sock_def requests_def)
  moreover have "closed (close_sock (snd ?r))" by (simp add: close_sock_def)
  ultimately show ?thesis by simp
qed

theorem listing_unopenable_directory_witness:
  "recMsg (Some ''-l'') = (Returned, frame ''-l'')
   \<and> recMsg (Some ''51000'') = (Returned, frame ''51000'')
   \<and> strncmp (cstr (frame ''-l'')) ''-l'' 2 = 0
   \<and> opendir env_nodir = None \<and> closedir_null_returns env_nodir
   \<and> no_write_error sock0
   \<and> main_cycle 0 env_nodir (Some ''-l'') (Some ''51000'') sock0 =
        (Returned, \<lparr>calls = [(frame ''dir\<newline>'', 500)], script = [], closed = True\<rparr>)"
proof -
  have a: "recMsg (Some ''-l'') = (Returned, frame ''-l'')"
    and b: "recMsg (Some ''51000'') = (Returned, frame ''51000'')"
    by (simp_all add: recMsg_Some frame_def BUFFER_SIZE_def)
  have c: "strncmp (cstr (frame ''-l'')) ''-l'' 2 = 0"
    by (simp add: strncmp_def cstr_frame BUFFER_SIZE_def)
  have d: "opendir env_nodir = None" and e: "closedir_null_returns env_nodir"
    by (simp_all add: env_nodir_def)
  have f: "no_write_error sock0" by (simp add: no_write_error_def sock0_def)
  have "main_cycle 0 env_nodir (Some ''-l'') (Some ''51000'') sock0 =
        (Returned, \<lparr>calls = [(frame ''dir\<newline>'', 500)], script = [], closed = True\<rparr>)"
    using listing_unopenable_directory[OF a b c d e f, of 0]
    by (simp add: a b c d e main_cycle_def handleRequest_def sendDir_def closedir_def
          sendMsg_fits BUFFER_SIZE_def answer_def sock0_def close_sock_def)
  with a b c d e f show ?thesis by simp
qed

text \<open>
  C10. When \<^verbatim>\<open>opendir\<close> fails (and \<^verbatim>\<open>closedir(NULL)\<close> returns), \<^verbatim>\<open>inDir\<close> reports every
  name as absent, and a command handled as a file name is answered by the \<^verbatim>\<open>nof\<close> tag
  alone, also when \<^verbatim>\<open>fopen\<close> could open the file. The process terminates only if the
  write of the tag fails.
\<close>

theorem membership_unopenable_directory:
  assumes "opendir e = None" and "closedir_null_returns e"
    and "NUL \<in> set buffer"
    and "strncmp (cstr buffer) ''-l'' 2 \<noteq> 0" and "strncmp (cstr buffer) ''%none'' 5 \<noteq> 0"
  shows "inDir e name = (Returned, 0)
       \<and> requests (snd (handleRequest fuel e buffer s)) = requests s @ [frame ''nof\<newline>'']
       \<and> fst (handleRequest fuel e buffer s) =
           (if answer (script s) BUFFER_SIZE < 0 then Exited ''ERROR writing message to socket.''
            else Returned)"
proof -
  have l1: "length ''nof\<newline>'' < BUFFER_SIZE" by (simp add: BUFFER_SIZE_def)
  have i: "\<And>n. inDir e n = (Returned, 0)"
    using assms(1,2) by (simp add: inDir_eq closedir_def)
  have "handleRequest fuel e buffer s = sendMsg s ''nof\<newline>''"
    using assms(3,4,5) by (simp add: handleRequest_def i)
  then show ?thesis
    by (simp add: i sendMsg_fits[OF l1] requests_def)
qed

theorem membership_unopenable_directory_witness:
  "opendir env_nodir = None \<and> closedir_null_returns env_nodir
   \<and> NUL \<in> set (frame ''notes.txt'')
   \<and> strncmp (cstr (frame ''notes.txt'')) ''-l'' 2 \<noteq> 0
   \<and> strncmp (cstr (frame ''notes.txt'')) ''%none'' 5 \<noteq> 0
   \<and> fopen env_nodir ''notes.txt'' = Some file_hello
   \<and> inDir env_nodir ''notes.txt'' = (Returned, 0)
   \<and> requests (snd (handleRequest 1 env_nodir (frame ''notes.txt'') sock0)) = [frame ''nof\<newline>'']
   \<and> fst (handleRequest 1 env_nodir (frame ''notes.txt'') sock0) = Returned"
proof -
  have d: "opendir env_nodir = None" and e: "closedir_null_returns env_nodir"
    and o: "fopen env_nodir ''notes.txt'' = Some file_hello"
    by (simp_all add: env_nodir_def)
  have n: "NUL \<in> set (frame ''notes.txt'')" by (simp add: NUL_in_frame BUFFER_SIZE_def)
  have c: "strncmp (cstr (frame ''notes.txt'')) ''-l'' 2 \<noteq> 0"
    "strncmp (cstr (frame ''notes.txt'')) ''%none'' 5 \<noteq> 0"
    by (simp_all add: strncmp_def cstr_frame BUFFER_SIZE_def)
  from membership_unopenable_directory[OF d e n c, of "''notes.txt''" 1 sock0]
  have "inDir env_nodir ''notes.txt'' = (Returned, 0)
   \<and> requests (snd (handleRequest 1 env_nodir (frame ''notes.txt'') sock0)) = [frame ''nof\<newline>'']
   \<and> fst (handleRequest 1 env_nodir (frame ''notes.txt'') sock0) = Returned"
    by (simp add: requests_def sock0_def answer_def BUFFER_SIZE_def)
  with d e o n c show ?thesis by simp
qed

end
